theory Spec2Isabelle
  imports Complex_Main
begin

section \<open>Python values, exceptions and the file system\<close>

text \<open>
  Values that reach \<open>json.dump\<close>. \<open>PyOpaque\<close> stands for any object the JSON encoder
  rejects (a function, a class instance); numbers are Python ints and floats without NaN.
\<close>

datatype pyval =
    PyNone
  | PyBool bool
  | PyNum real
  | PyStr string
  | PyList "pyval list"
  | PyDict "(string \<times> pyval) list"
  | PyOpaque nat

fun json_serializable :: "pyval \<Rightarrow> bool" where
  "json_serializable PyNone = True"
| "json_serializable (PyBool b) = True"
| "json_serializable (PyNum r) = True"
| "json_serializable (PyStr s) = True"
| "json_serializable (PyList xs) = list_all json_serializable xs"
| "json_serializable (PyDict kvs) = list_all json_serializable (map snd kvs)"
| "json_serializable (PyOpaque n) = False"

text \<open>
  The exceptions the modelled code raises. \<open>ExperimentError msg cause\<close> is
  \<open>raise ExperimentError(msg) from exc\<close>; \<open>Fault\<close> is any exception raised by the
  caller's code inside a \<open>with\<close> block.
\<close>

datatype error =
    KeyError string
  | ValueError string
  | TypeError string
  | OSError string
  | AssertionError string
  | AttributeError string
  | StopIteration
  | Fault string
  | ExperimentError string error

text \<open>
  The file system maps a path to what is stored there. A JSON file holds the document
  that \<open>json.dump\<close> wrote; a dump that raised half-way leaves \<open>Partial_json\<close>.
\<close>

datatype entry =
    Directory
  | Json "(string \<times> pyval) list"
  | Partial_json
  | Figure_file nat
  | Report_md string

type_synonym fs = "string \<rightharpoonup> entry"

definition os_path_join :: "string \<Rightarrow> string \<Rightarrow> string" where
  "os_path_join a b =
     (if b \<noteq> [] \<and> hd b = CHR ''/'' then b
      else if a = [] \<or> last a = CHR ''/'' then a @ b
      else a @ ''/'' @ b)"

definition ancestors :: "string \<Rightarrow> string list" where
  "ancestors p = map (\<lambda>i. take i p) (filter (\<lambda>i. p ! i = CHR ''/'') [1..<length p])"

definition mkdir_if_absent :: "string \<Rightarrow> fs \<Rightarrow> fs" where
  "mkdir_if_absent q f = (if f q = None then f(q \<mapsto> Directory) else f)"

definition blocked :: "fs \<Rightarrow> string \<Rightarrow> bool" where
  "blocked f q = (case f q of None \<Rightarrow> False | Some e \<Rightarrow> e \<noteq> Directory)"

text \<open>
  \<open>os.makedirs(p, exist_ok=True)\<close>: creates \<open>p\<close> and its missing ancestors, leaves
  what exists alone, and raises when \<open>p\<close> or an ancestor exists and is not a directory.
\<close>

definition makedirs :: "string \<Rightarrow> fs \<Rightarrow> error + fs" where
  "makedirs p f =
     (if list_ex (blocked f) (ancestors p @ [p]) then Inl (OSError p)
      else Inr (fold mkdir_if_absent (ancestors p @ [p]) f))"

text \<open>
  \<open>with open(path, "w") as f: json.dump(doc, f, indent=4)\<close>: the file is truncated on
  opening, and the encoder raises \<open>TypeError\<close> at the first value it cannot encode.
\<close>

definition json_dump :: "(string \<times> pyval) list \<Rightarrow> string \<Rightarrow> fs \<Rightarrow> error option \<times> fs" where
  "json_dump doc path f =
     (if json_serializable (PyDict doc) then (None, f(path \<mapsto> Json doc))
      else (Some (TypeError ''Object is not JSON serializable''), f(path \<mapsto> Partial_json)))"

definition replace_spaces :: "string \<Rightarrow> string" where
  "replace_spaces s = map (\<lambda>c. if c = CHR '' '' then CHR ''_'' else c) s"

definition ascii_lower :: "char \<Rightarrow> char" where
  "ascii_lower c =
     (if (65::nat) \<le> of_char c \<and> of_char c \<le> (90::nat) then char_of (of_char c + (32::nat)) else c)"

definition lower :: "string \<Rightarrow> string" where
  "lower s = map ascii_lower s"

section \<open>Trials (helpers/trial.py)\<close>

definition normalize_trial_name :: "string \<Rightarrow> string" where
  "normalize_trial_name trial_name = lower (replace_spaces trial_name)"

text \<open>
  \<open>trial_data\<close> is the dictionary built by \<open>_init_trial_data\<close>: its eight keys are
  fixed there and only their values change afterwards, so it is a record. A result
  slot that is still \<open>None\<close> is \<open>None\<close> here.
\<close>

record trial_data =
  name :: string
  start_time :: pyval
  duration :: pyval
  directory :: string
  hyperparameters :: pyval
  figures :: "(string \<times> string) list option"
  evaluation_metrics :: "(string \<times> real) list option"
  training_history :: "(string \<times> real list) list option"

text \<open>
  The dictionary returned by \<open>fetch_trial_results()\<close>; a key that the dictionary does
  not have is \<open>None\<close>. Figures are opaque handles.
\<close>

record results =
  r_figures :: "(string \<times> nat) list option"
  r_evaluation_metrics :: "(string \<times> real) list option"
  r_training_history :: "(string \<times> real list) list option"

datatype warning =
    Skipping string
  | Produced_no_results string
  | Overwriting string
  | Hyperparameters_not_serializable string
  | Ignoring_key string

datatype log_entry = Log_info string | Log_warning string

text \<open>
  A trial together with everything its methods touch: \<open>experiment_trials\<close> is the
  parent's list \<open>experiment_data["trials"]\<close> (the trial keeps a reference to it).
\<close>

record trial_state =
  trial_data :: trial_data
  already_runned :: bool
  experiment_trials :: "trial_data list"
  files :: fs
  warnings :: "warning list"
  logger :: "log_entry list"

definition make_trial_directory :: "string \<Rightarrow> string \<Rightarrow> fs \<Rightarrow> error + (string \<times> fs)" where
  "make_trial_directory experiment_directory nm f =
     (let trial_directory = os_path_join experiment_directory (lower (replace_spaces nm))
      in case makedirs trial_directory f of
           Inl e \<Rightarrow> Inl e
         | Inr f' \<Rightarrow> Inr (trial_directory, f'))"

definition init_trial_data :: "string \<Rightarrow> string \<Rightarrow> pyval \<Rightarrow> fs \<Rightarrow> error + (trial_data \<times> fs)" where
  "init_trial_data experiment_directory nm hp f =
     (case make_trial_directory experiment_directory (normalize_trial_name nm) f of
        Inl e \<Rightarrow> Inl e
      | Inr (trial_directory, f') \<Rightarrow>
          Inr (\<lparr> name = nm, start_time = PyNone, duration = PyNone,
                 directory = trial_directory, hyperparameters = hp,
                 figures = None, evaluation_metrics = None, training_history = None \<rparr>, f'))"

definition check_if_already_runned :: "trial_data \<Rightarrow> trial_data list \<Rightarrow> bool" where
  "check_if_already_runned td ts = (name td \<in> set (map name ts))"

definition trial_enter :: "pyval \<Rightarrow> trial_state \<Rightarrow> trial_state" where
  "trial_enter now s = s\<lparr> trial_data := (trial_data s)\<lparr> start_time := now \<rparr> \<rparr>"

fun index_of :: "'a \<Rightarrow> 'a list \<Rightarrow> nat" where
  "index_of x [] = 0"
| "index_of x (y # ys) = (if x = y then 0 else Suc (index_of x ys))"

definition pop :: "nat \<Rightarrow> 'a list \<Rightarrow> 'a list" where
  "pop i xs = take i xs @ drop (Suc i) xs"

definition remove_trial :: "string \<Rightarrow> trial_data list \<Rightarrow> error + trial_data list" where
  "remove_trial trial_name ts =
     (let names = map name ts
      in if trial_name \<notin> set names then Inl (ValueError trial_name)
         else Inr (pop (index_of trial_name names) ts))"

definition trial_data_items :: "trial_data \<Rightarrow> (string \<times> pyval) list" where
  "trial_data_items td =
     [(''name'', PyStr (name td)),
      (''start_time'', start_time td),
      (''duration'', duration td),
      (''directory'', PyStr (directory td)),
      (''hyperparameters'', hyperparameters td),
      (''figures'', case figures td of None \<Rightarrow> PyNone
                    | Some d \<Rightarrow> PyDict (map (\<lambda>(k, p). (k, PyStr p)) d)),
      (''evaluation_metrics'', case evaluation_metrics td of None \<Rightarrow> PyNone
                    | Some d \<Rightarrow> PyDict (map (\<lambda>(k, v). (k, PyNum v)) d)),
      (''training_history'', case training_history td of None \<Rightarrow> PyNone
                    | Some d \<Rightarrow> PyDict (map (\<lambda>(k, vs). (k, PyList (map PyNum vs))) d))]"

text \<open>
  \<open>_write_trial_data\<close> dumps a copy of \<open>trial_data\<close>; on \<open>TypeError\<close> it warns, sets
  the copy's hyperparameters to \<open>None\<close> and dumps again. The second dump is outside
  the \<open>try\<close>, so its \<open>TypeError\<close> propagates.
\<close>

definition write_trial_data :: "trial_state \<Rightarrow> error option \<times> trial_state" where
  "write_trial_data s =
     (let trial_info_json = os_path_join (directory (trial_data s)) ''trial_info.json'';
          td = trial_data s
      in case json_dump (trial_data_items td) trial_info_json (files s) of
           (None, f1) \<Rightarrow> (None, s\<lparr> files := f1 \<rparr>)
         | (Some (TypeError m), f1) \<Rightarrow>
             (let s1 = s\<lparr> files := f1,
                         warnings := warnings s @ [Hyperparameters_not_serializable (name td)],
                         logger := logger s @ [Log_warning ''Hyperparameters are not JSON serializable''] \<rparr>;
                  td' = td\<lparr> hyperparameters := PyNone \<rparr>
              in case json_dump (trial_data_items td') trial_info_json f1 of
                   (r, f2) \<Rightarrow> (r, s1\<lparr> files := f2 \<rparr>))
         | (Some e, f1) \<Rightarrow> (Some e, s\<lparr> files := f1 \<rparr>))"

definition dict_is_empty :: "'a list option \<Rightarrow> bool" where
  "dict_is_empty v = (case v of None \<Rightarrow> True | Some d \<Rightarrow> d = [])"

definition results_empty :: "results \<Rightarrow> bool" where
  "results_empty r =
     (dict_is_empty (r_figures r) \<and> dict_is_empty (r_evaluation_metrics r)
      \<and> dict_is_empty (r_training_history r))"

text \<open>
  \<open>Trial.__exit__\<close>. \<open>dur\<close> is what \<open>get_duration\<close> returns, \<open>exc\<close> the exception the
  scope is left with (if any), \<open>trial_results\<close> what \<open>fetch_trial_results()\<close> returns,
  and \<open>tff\<close> the helper \<open>transform_figures_to_files\<close>, which saves the figures under a
  directory and returns their paths. The state is returned as it is when the method
  returns or raises.
\<close>

definition trial_exit ::
  "((string \<times> nat) list \<Rightarrow> string \<Rightarrow> fs \<Rightarrow> (string \<times> string) list \<times> fs)
    \<Rightarrow> pyval \<Rightarrow> error option \<Rightarrow> results \<Rightarrow> trial_state \<Rightarrow> error option \<times> trial_state" where
  "trial_exit tff dur exc trial_results s0 =
     (let s = s0\<lparr> trial_data := (trial_data s0)\<lparr> duration := dur \<rparr> \<rparr>
      in case exc of
           Some e \<Rightarrow> (Some e, s)
         | None \<Rightarrow>
            (let trial_name = name (trial_data s)
             in if results_empty trial_results \<and> already_runned s then
                  (None, s\<lparr> warnings := warnings s @ [Skipping trial_name],
                            logger := logger s @ [Log_warning (''Skipping '' @ trial_name)] \<rparr>)
                else
                 (let s1 = s\<lparr> logger := logger s @ [Log_info (''Finalizing trial: '' @ trial_name)] \<rparr>
                  in if results_empty trial_results then
                       (None, s1\<lparr> warnings := warnings s1 @ [Produced_no_results trial_name],
                                  logger := logger s1 @ [Log_warning (trial_name @ '' produced no results'')] \<rparr>)
                     else
                      (let s2 = (if already_runned s1 then
                                   s1\<lparr> warnings := warnings s1 @ [Overwriting trial_name],
                                       logger := logger s1
                                         @ [Log_warning (''Overwriting old results for '' @ trial_name)] \<rparr>
                                 else s1)
                       in case (if already_runned s1 then remove_trial trial_name (experiment_trials s2)
                                else Inr (experiment_trials s2)) of
                            Inl e \<Rightarrow> (Some e, s2)
                          | Inr ts \<Rightarrow>
                             (let s3 = s2\<lparr> experiment_trials := ts \<rparr>
                              in case r_figures trial_results of
                                   None \<Rightarrow> (Some (KeyError ''figures''), s3)
                                 | Some figs \<Rightarrow>
                                    (case tff figs (directory (trial_data s3)) (files s3) of
                                       (paths, f4) \<Rightarrow>
                                        (let s4 = s3\<lparr> files := f4,
                                                       trial_data := (trial_data s3)\<lparr> figures := Some paths \<rparr> \<rparr>
                                         in case r_evaluation_metrics trial_results of
                                              None \<Rightarrow> (Some (KeyError ''evaluation_metrics''), s4)
                                            | Some m \<Rightarrow>
                                               (let s5 = s4\<lparr> trial_data :=
                                                               (trial_data s4)\<lparr> evaluation_metrics := Some m \<rparr> \<rparr>
                                                in case r_training_history trial_results of
                                                     None \<Rightarrow> (Some (KeyError ''training_history''), s5)
                                                   | Some h \<Rightarrow>
                                                      (let s6 = s5\<lparr> trial_data :=
                                                                      (trial_data s5)\<lparr> training_history := Some h \<rparr> \<rparr>
                                                       in case write_trial_data s6 of
                                                            (Some e, s7) \<Rightarrow> (Some e, s7)
                                                          | (None, s7) \<Rightarrow>
                                                             (None, s7\<lparr> experiment_trials :=
                                                                experiment_trials s7 @ [trial_data s7] \<rparr>))))))))))"

section \<open>Experiments (experiment.py)\<close>

text \<open>
  \<open>experiment_data\<close> is the dictionary built in \<open>Experiment.__init__\<close>, with its six
  fixed keys; \<open>trials\<close> is the list that every trial of the experiment shares.
\<close>

record experiment_data =
  e_name :: string
  e_description :: string
  e_start_time :: pyval
  e_duration :: pyval
  e_directory :: string
  trials :: "trial_data list"

record Experiment =
  experiment_data :: experiment_data
  figures_slot :: "(string \<times> nat) list"
  evaluation_metrics_slot :: "(string \<times> real) list"
  report_kwargs :: "(string \<times> pyval) list"

text \<open>
  \<open>_make_experiment_directory\<close>. \<open>resolve\<close> is
  \<open>os.path.abspath(os.path.normpath(directory))\<close> in the running process.
\<close>

definition make_experiment_directory ::
  "(string \<Rightarrow> string) \<Rightarrow> string \<Rightarrow> string \<Rightarrow> fs \<Rightarrow> error + (string \<times> fs)" where
  "make_experiment_directory resolve dir nm f =
     (let experiment_dir = os_path_join (resolve dir) (replace_spaces nm)
      in case makedirs experiment_dir f of
           Inl e \<Rightarrow> Inl e
         | Inr f' \<Rightarrow> Inr (experiment_dir, f'))"

text \<open>
  \<open>ResearchAttributes.__init__(self, label_type, class_names=None)\<close>: \<open>label_type\<close> has
  no default, so a call that does not pass it raises \<open>TypeError\<close> before the body
  runs. With it, the attributes are set (the label manager's constructor is taken to
  succeed).
\<close>

definition research_attributes_init :: "string option \<Rightarrow> error + unit" where
  "research_attributes_init label_type =
     (case label_type of
        None \<Rightarrow> Inl (TypeError ''__init__() missing 1 required positional argument: label_type'')
      | Some l \<Rightarrow> Inr ())"

text \<open>The dictionary assigned to \<open>experiment_data\<close> in \<open>Experiment.__init__\<close>.\<close>

definition initial_experiment_data :: "string \<Rightarrow> string \<Rightarrow> string \<Rightarrow> experiment_data" where
  "initial_experiment_data nm description experiment_directory =
     \<lparr> e_name = nm, e_description = description, e_start_time = PyNone,
       e_duration = PyNone, e_directory = experiment_directory, trials = [] \<rparr>"

text \<open>
  \<open>Experiment.__init__\<close>, statement by statement: \<open>super().__init__()\<close> passes no
  \<open>label_type\<close>; then the result slots, the directory and \<open>experiment_data\<close>; then
  \<open>self.synchronize_research_attributes\<close>, an attribute that neither class defines.
  The constructor returns the exception and the file system as it leaves it; no path
  returns an object.
\<close>

definition experiment_init ::
  "(string \<Rightarrow> string) \<Rightarrow> string \<Rightarrow> string \<Rightarrow> string \<Rightarrow> (string \<times> pyval) list option \<Rightarrow> fs
    \<Rightarrow> error \<times> fs" where
  "experiment_init resolve dir nm description kwargs f =
     (case research_attributes_init None of
        Inl err \<Rightarrow> (err, f)
      | Inr u \<Rightarrow>
          (case make_experiment_directory resolve dir nm f of
             Inl err \<Rightarrow> (err, f)
           | Inr (experiment_directory, f') \<Rightarrow>
               (let self = \<lparr> experiment_data = initial_experiment_data nm description experiment_directory,
                              figures_slot = [], evaluation_metrics_slot = [], report_kwargs = [] \<rparr>
                in (AttributeError ''synchronize_research_attributes'', f'))))"

definition experiment_enter :: "pyval \<Rightarrow> Experiment \<Rightarrow> Experiment" where
  "experiment_enter now e = e\<lparr> experiment_data := (experiment_data e)\<lparr> e_start_time := now \<rparr> \<rparr>"


text \<open>
  \<open>Trial.__init__\<close> for experiment \<open>e\<close>, statement by statement: the experiment has the
  two required attributes; \<open>_init_research_attributes\<close> calls \<open>ResearchAttributes()\<close>
  with no \<open>label_type\<close>; then \<open>_init_trial_data\<close>, the references to the parent's list
  and to \<open>get_results\<close>, and \<open>experiment.logger\<close>, an attribute that \<open>Experiment\<close> does
  not have. No path reaches \<open>_check_if_already_runned\<close> or returns an object.
\<close>

definition trial_init :: "Experiment \<Rightarrow> string \<Rightarrow> pyval \<Rightarrow> fs \<Rightarrow> error \<times> fs" where
  "trial_init e nm hp f =
     (case research_attributes_init None of
        Inl err \<Rightarrow> (err, f)
      | Inr u \<Rightarrow>
          (case init_trial_data (e_directory (experiment_data e)) nm hp f of
             Inl err \<Rightarrow> (err, f)
           | Inr (td, f') \<Rightarrow> (AttributeError ''logger'', f')))"

text \<open>
  \<open>Experiment.trial\<close> calls \<open>Trial(self, name, description, hyperparameters)\<close>, one
  argument more than \<open>Trial.__init__\<close> accepts: the call raises before the
  constructor's body runs.
\<close>

definition experiment_trial :: "Experiment \<Rightarrow> string \<Rightarrow> string \<Rightarrow> pyval \<Rightarrow> fs \<Rightarrow> error \<times> fs" where
  "experiment_trial e nm description hp f =
     (TypeError ''__init__() takes 4 positional arguments but 5 were given'', f)"

definition experiment_data_items :: "experiment_data \<Rightarrow> (string \<times> pyval) list" where
  "experiment_data_items ed =
     [(''name'', PyStr (e_name ed)),
      (''description'', PyStr (e_description ed)),
      (''start_time'', e_start_time ed),
      (''duration'', e_duration ed),
      (''directory'', PyStr (e_directory ed))]"

definition write_experiment_data :: "experiment_data \<Rightarrow> fs \<Rightarrow> error option \<times> fs" where
  "write_experiment_data ed f =
     json_dump (experiment_data_items ed) (os_path_join (e_directory ed) ''experiment_info.json'') f"

text \<open>
  The sort key \<open>x["evaluation_metrics"]["accuracy"]\<close>: subscripting \<open>None\<close> raises
  \<open>TypeError\<close>, a missing key raises \<open>KeyError\<close>.
\<close>

definition accuracy_key :: "trial_data \<Rightarrow> error + real" where
  "accuracy_key x =
     (case evaluation_metrics x of
        None \<Rightarrow> Inl (TypeError ''NoneType object is not subscriptable'')
      | Some m \<Rightarrow>
          (case map_of m ''accuracy'' of
             None \<Rightarrow> Inl (KeyError ''accuracy'')
           | Some a \<Rightarrow> Inr a))"

definition accuracy_of :: "trial_data \<Rightarrow> real" where
  "accuracy_of x = (case accuracy_key x of Inl e \<Rightarrow> 0 | Inr a \<Rightarrow> a)"

definition has_accuracy :: "trial_data \<Rightarrow> bool" where
  "has_accuracy x = (case accuracy_key x of Inl e \<Rightarrow> False | Inr a \<Rightarrow> True)"

text \<open>\<open>list.sort\<close> computes the key of every element, in order, before it sorts.\<close>

fun sort_keys :: "trial_data list \<Rightarrow> error + real list" where
  "sort_keys [] = Inr []"
| "sort_keys (x # xs) =
     (case accuracy_key x of
        Inl e \<Rightarrow> Inl e
      | Inr k \<Rightarrow> (case sort_keys xs of Inl e \<Rightarrow> Inl e | Inr ks \<Rightarrow> Inr (k # ks)))"

text \<open>
  \<open>list.sort(key=..., reverse=True)\<close>: the list is reversed, sorted stably by
  ascending key and reversed again, which is how \<open>reverse\<close> keeps the sort stable.
\<close>

definition sort_reverse :: "(real \<times> 'a) list \<Rightarrow> (real \<times> 'a) list" where
  "sort_reverse kxs = rev (sort_key fst (rev kxs))"

definition sort_trials :: "trial_data list \<Rightarrow> error + trial_data list" where
  "sort_trials ts =
     (if ts = [] then Inr ts
      else case sort_keys ts of
             Inl e \<Rightarrow> Inl e
           | Inr ks \<Rightarrow> Inr (map snd (sort_reverse (zip ks ts))))"

text \<open>
  \<open>create_experiment_report\<close> (helpers/create\_experiment\_report.py) takes the
  experiment's dictionary and no keyword argument, reads \<open>trial["description"]\<close> of
  every trial, and saves the report as its last step. The report's text is not
  modelled: the entry records the experiment it was written for.
\<close>

definition create_experiment_report ::
  "experiment_data \<Rightarrow> (string \<times> pyval) list \<Rightarrow> fs \<Rightarrow> error option \<times> fs" where
  "create_experiment_report ed kwargs f =
     (if kwargs \<noteq> [] then (Some (TypeError ''unexpected keyword argument''), f)
      else if trials ed \<noteq> [] then (Some (KeyError ''description''), f)
      else (None, f(os_path_join (e_directory ed) ''experiment_report.md'' \<mapsto> Report_md (e_name ed))))"

text \<open>
  \<open>Experiment.__exit__\<close>; \<open>dur\<close> is what \<open>get_duration\<close> returns and \<open>exc\<close> the
  exception the scope is left with, if any (building it again from its type and
  value, \<open>exc_type(exc_value)\<close>, is taken to succeed).
\<close>

definition experiment_exit ::
  "pyval \<Rightarrow> error option \<Rightarrow> Experiment \<Rightarrow> fs \<Rightarrow> error option \<times> Experiment \<times> fs" where
  "experiment_exit dur exc e0 f =
     (let e = e0\<lparr> experiment_data := (experiment_data e0)\<lparr> e_duration := dur \<rparr> \<rparr>
      in case exc of
           Some x \<Rightarrow> (Some (ExperimentError ''An error occurred during the experiment.'' x), e, f)
         | None \<Rightarrow>
            (case write_experiment_data (experiment_data e) f of
               (Some err, f1) \<Rightarrow> (Some err, e, f1)
             | (None, f1) \<Rightarrow>
                (case sort_trials (trials (experiment_data e)) of
                   Inl err \<Rightarrow> (Some err, e, f1)
                 | Inr ts \<Rightarrow>
                    (let e2 = e\<lparr> experiment_data := (experiment_data e)\<lparr> trials := ts \<rparr> \<rparr>
                     in case create_experiment_report (experiment_data e2) (report_kwargs e2) f1 of
                          (r, f2) \<Rightarrow> (r, e2, f2)))))"

section \<open>Generated trial definitions (helpers/load\_definitions\_of\_experiment.py)\<close>

definition digit_char :: "nat \<Rightarrow> char" where
  "digit_char d = char_of (48 + d)"

function str_nat :: "nat \<Rightarrow> string" where
  "str_nat n = (if n < 10 then [digit_char n] else str_nat (n div 10) @ [digit_char (n mod 10)])"
  by pat_completeness auto
termination
  by (relation "measure id") auto

definition str_int :: "int \<Rightarrow> string" where
  "str_int i = (if i < 0 then CHR ''-'' # str_nat (nat (- i)) else str_nat (nat i))"

record 's trials_definitions_iterator =
  suggester :: 's
  num_trials :: int
  prefix :: string
  trial_count :: int

text \<open>
  \<open>_TrialsDefinitionsIterator.__next__\<close>; \<open>suggest_next\<close> is the suggester's method,
  which returns the next hyperparameters and the suggester's new state.
\<close>

definition iterator_next ::
  "('s \<Rightarrow> 'h \<times> 's) \<Rightarrow> 's trials_definitions_iterator
    \<Rightarrow> error + ((string \<times> 'h) \<times> 's trials_definitions_iterator)" where
  "iterator_next suggest_next it =
     (if trial_count it = num_trials it then Inl StopIteration
      else
        (let c = trial_count it + 1;
             nm = prefix it @ str_int c
         in case suggest_next (suggester it) of
              (hparams, sg) \<Rightarrow> Inr ((nm, hparams), it\<lparr> trial_count := c, suggester := sg \<rparr>)))"

text \<open>
  Iterating the stream to its end, as a \<open>for\<close> loop does: the items it yields, the
  exception that ends it, and the iterator as it is left. The loop may not end.
\<close>

partial_function (option) iterate ::
  "('s \<Rightarrow> 'h \<times> 's) \<Rightarrow> 's trials_definitions_iterator
    \<Rightarrow> ((string \<times> 'h) list \<times> error \<times> 's trials_definitions_iterator) option" where
  "iterate suggest_next it =
     (case iterator_next suggest_next it of
        Inl e \<Rightarrow> Some ([], e, it)
      | Inr r \<Rightarrow>
          Option.bind (iterate suggest_next (snd r))
            (\<lambda>t. Some (fst r # fst t, snd t)))"

text \<open>
  The generator configuration: the keys \<open>num_trials\<close>, \<open>prefix\<close> and
  \<open>hparams_configs\<close> when present, and the other keys of the dictionary.
\<close>

record 'c generator_config =
  cfg_num_trials :: "int option"
  cfg_prefix :: "string option"
  cfg_hparams_configs :: "'c option"
  cfg_other_keys :: "string list"

text \<open>
  \<open>_process_trials_definitions\<close> on a dictionary; \<open>new_suggester\<close> is the constructor
  \<open>HParamsSuggester\<close>, which may refuse the configuration.
\<close>

definition process_trials_definitions ::
  "('c \<Rightarrow> error + 's) \<Rightarrow> 'c generator_config
    \<Rightarrow> error + ('s trials_definitions_iterator \<times> warning list)" where
  "process_trials_definitions new_suggester td =
     (let n = (case cfg_num_trials td of None \<Rightarrow> 1 | Some k \<Rightarrow> k);
          pre = (case cfg_prefix td of None \<Rightarrow> ''trial_'' | Some p \<Rightarrow> p)
      in case cfg_hparams_configs td of
           None \<Rightarrow> Inl (AssertionError ''hparams_configs is not a key in trials_definitions.'')
         | Some hc \<Rightarrow>
            (case new_suggester hc of
               Inl e \<Rightarrow> Inl (AssertionError ''Invalid hparams_configs in trials_definitions.'')
             | Inr sg \<Rightarrow>
                 Inr (\<lparr> suggester = sg, num_trials = n, prefix = pre, trial_count = 0 \<rparr>,
                      map Ignoring_key (cfg_other_keys td))))"

text \<open>
  The hyperparameters that \<open>k\<close> successive calls of \<open>suggest_next\<close> return, starting
  from the suggester state \<open>sg\<close>.
\<close>

fun suggestions :: "('s \<Rightarrow> 'h \<times> 's) \<Rightarrow> 's \<Rightarrow> nat \<Rightarrow> 'h list" where
  "suggestions suggest_next sg 0 = []"
| "suggestions suggest_next sg (Suc k) =
     (case suggest_next sg of (h, sg') \<Rightarrow> h # suggestions suggest_next sg' k)"

section \<open>Example states\<close>

definition trial_a :: trial_data where
  "trial_a =
     \<lparr> name = ''trial_a'', start_time = PyStr ''09:00'', duration = PyStr ''0:10'',
       directory = ''/base/exp1/trial_a'', hyperparameters = PyDict [(''lr'', PyNum 0.01)],
       figures = Some [], evaluation_metrics = Some [(''accuracy'', 0.9)],
       training_history = Some [] \<rparr>"

definition trial_b :: trial_data where
  "trial_b =
     \<lparr> name = ''trial_b'', start_time = PyStr ''09:10'', duration = PyStr ''0:10'',
       directory = ''/base/exp1/trial_b'', hyperparameters = PyDict [(''lr'', PyNum 0.001)],
       figures = Some [], evaluation_metrics = Some [(''accuracy'', 0.95)],
       training_history = Some [] \<rparr>"

definition trial_without_accuracy :: trial_data where
  "trial_without_accuracy =
     \<lparr> name = ''trial_c'', start_time = PyStr ''09:20'', duration = PyStr ''0:10'',
       directory = ''/base/exp1/trial_c'', hyperparameters = PyNone,
       figures = Some [], evaluation_metrics = Some [(''loss'', 0.3)],
       training_history = Some [] \<rparr>"

definition exp1 :: "trial_data list \<Rightarrow> Experiment" where
  "exp1 ts =
     \<lparr> experiment_data =
         \<lparr> e_name = ''exp1'', e_description = ''two trials'', e_start_time = PyStr ''09:00'',
           e_duration = PyNone, e_directory = ''/base/exp1'', trials = ts \<rparr>,
       figures_slot = [], evaluation_metrics_slot = [(''accuracy'', 0.95)], report_kwargs = [] \<rparr>"

definition state_of :: "trial_data \<Rightarrow> bool \<Rightarrow> trial_data list \<Rightarrow> fs \<Rightarrow> trial_state" where
  "state_of td flag ts f =
     \<lparr> trial_data = td, already_runned = flag, experiment_trials = ts, files = f,
       warnings = [], logger = [] \<rparr>"

definition trial_with_function :: trial_data where
  "trial_with_function =
     \<lparr> name = ''trial_f'', start_time = PyStr ''09:30'', duration = PyStr ''0:10'',
       directory = ''/base/exp1/trial_f'',
       hyperparameters = PyDict [(''lr'', PyNum 0.01), (''activation'', PyOpaque 0)],
       figures = Some [(''loss'', ''/base/exp1/trial_f/loss.png'')],
       evaluation_metrics = Some [(''accuracy'', 0.8)],
       training_history = Some [(''loss'', [0.5, 0.4])] \<rparr>"

definition rerun_of_trial_a :: trial_data where
  "rerun_of_trial_a =
     \<lparr> name = ''trial_a'', start_time = PyStr ''10:00'', duration = PyNone,
       directory = ''/base/exp1/trial_a'', hyperparameters = PyNone,
       figures = None, evaluation_metrics = None, training_history = None \<rparr>"

definition disk1 :: fs where
  "disk1 = [''/base'' \<mapsto> Directory, ''/base/exp1'' \<mapsto> Directory,
            ''/base/exp1/trial_a'' \<mapsto> Directory,
            ''/base/exp1/trial_a/trial_info.json'' \<mapsto> Json (trial_data_items trial_a)]"

section \<open>Closing an experiment\<close>

lemma experiment_items_serializable:
  "json_serializable (PyDict (experiment_data_items ed))
     = (json_serializable (e_start_time ed) \<and> json_serializable (e_duration ed))"
  by (simp add: experiment_data_items_def)

lemma write_experiment_data_ok:
  assumes "json_serializable (e_start_time ed)" and "json_serializable (e_duration ed)"
  shows "write_experiment_data ed f =
           (None, f(os_path_join (e_directory ed) ''experiment_info.json'' \<mapsto> Json (experiment_data_items ed)))"
  using assms experiment_items_serializable[of ed]
  by (simp add: write_experiment_data_def json_dump_def del: json_serializable.simps)


subsection \<open>The sort by accuracy\<close>

lemma sort_keys_Inr:
  "list_all has_accuracy ts \<Longrightarrow> sort_keys ts = Inr (map accuracy_of ts)"
  by (induction ts) (auto simp: has_accuracy_def accuracy_of_def split: sum.splits)

lemma sort_keys_KeyError:
  "list_all (\<lambda>t. evaluation_metrics t \<noteq> None) ts \<Longrightarrow> list_ex (\<lambda>t. \<not> has_accuracy t) ts
     \<Longrightarrow> sort_keys ts = Inl (KeyError ''accuracy'')"
  by (induction ts) (auto simp: has_accuracy_def accuracy_key_def split: sum.splits option.splits)

lemma insort_key_decorate:
  "insort_key fst (g x, x) (map (\<lambda>t. (g t, t)) xs) = map (\<lambda>t. (g t, t)) (insort_key g x xs)"
  by (induction xs) auto

lemma sort_key_decorate:
  "sort_key fst (map (\<lambda>t. (g t, t)) xs) = map (\<lambda>t. (g t, t)) (sort_key g xs)"
  by (induction xs) (auto simp: insort_key_decorate)

lemma zip_decorate: "zip (map g xs) xs = map (\<lambda>t. (g t, t)) xs"
  by (induction xs) auto

lemma sort_trials_eq:
  assumes "list_all has_accuracy ts"
  shows "sort_trials ts = Inr (rev (sort_key accuracy_of (rev ts)))"
proof (cases "ts = []")
  case True
  then show ?thesis by (simp add: sort_trials_def)
next
  case False
  have "rev (map (\<lambda>t. (accuracy_of t, t)) ts) = map (\<lambda>t. (accuracy_of t, t)) (rev ts)"
    by (simp add: rev_map)
  then have "map snd (sort_reverse (zip (map accuracy_of ts) ts)) = rev (sort_key accuracy_of (rev ts))"
    by (simp add: sort_reverse_def zip_decorate sort_key_decorate comp_def rev_map)
  with False show ?thesis
    by (simp add: sort_trials_def sort_keys_Inr[OF assms])
qed

lemma experiment_exit_sorted_trials:
  assumes "json_serializable (e_start_time (experiment_data e))" and "json_serializable dur"
    and "list_all has_accuracy (trials (experiment_data e))"
  shows "trials (experiment_data (fst (snd (experiment_exit dur None e f))))
           = rev (sort_key accuracy_of (rev (trials (experiment_data e))))"
  using assms
  by (simp add: experiment_exit_def Let_def write_experiment_data_ok sort_trials_eq split: prod.splits)

text \<open>
  Claim C6. When the experiment's scope is left without an exception, the metadata
  can be written and every retained trial has an accuracy, the trial list after
  \<open>__exit__\<close> is in descending order of accuracy, and the trials of any one accuracy
  are the same as before and in the same order (the sort is stable; the list holds
  the same trials). The list is sorted before the report is made, so this is its
  state whatever the report does.
\<close>

theorem clean_exit_sorts_trials:
  assumes "json_serializable (e_start_time (experiment_data e))" and "json_serializable dur"
    and "list_all has_accuracy (trials (experiment_data e))"
  shows "sorted (rev (map accuracy_of (trials (experiment_data (fst (snd (experiment_exit dur None e f)))))))
       \<and> (\<forall>k. filter (\<lambda>t. accuracy_of t = k) (trials (experiment_data (fst (snd (experiment_exit dur None e f)))))
               = filter (\<lambda>t. accuracy_of t = k) (trials (experiment_data e)))
       \<and> set (trials (experiment_data (fst (snd (experiment_exit dur None e f))))) = set (trials (experiment_data e))
       \<and> length (trials (experiment_data (fst (snd (experiment_exit dur None e f))))) = length (trials (experiment_data e))"
proof -
  let ?ts = "trials (experiment_data e)"
  have eq: "trials (experiment_data (fst (snd (experiment_exit dur None e f)))) = rev (sort_key accuracy_of (rev ?ts))"
    by (rule experiment_exit_sorted_trials[OF assms])
  have st: "filter (\<lambda>t. accuracy_of t = k) (rev (sort_key accuracy_of (rev ?ts))) = filter (\<lambda>t. accuracy_of t = k) ?ts" for k
  proof -
    have "filter (\<lambda>t. accuracy_of t = k) (rev (sort_key accuracy_of (rev ?ts)))
            = rev (filter (\<lambda>t. accuracy_of t = k) (sort_key accuracy_of (rev ?ts)))"
      by (simp add: rev_filter)
    also have "\<dots> = rev (filter (\<lambda>t. accuracy_of t = k) (rev ?ts))"
      by (simp only: sort_key_stable)
    also have "\<dots> = filter (\<lambda>t. accuracy_of t = k) ?ts"
      by (simp add: rev_filter)
    finally show ?thesis .
  qed
  show ?thesis
    unfolding eq using st by (simp add: rev_map)
qed

theorem clean_exit_sorts_trials_witness:
  "json_serializable (e_start_time (experiment_data (exp1 [trial_a, trial_b])))
   \<and> json_serializable (PyStr ''0:30'')
   \<and> list_all has_accuracy (trials (experiment_data (exp1 [trial_a, trial_b])))
   \<and> map name (trials (experiment_data (fst (snd (experiment_exit (PyStr ''0:30'') None (exp1 [trial_a, trial_b]) disk1)))))
        = [''trial_b'', ''trial_a'']
   \<and> sorted (rev (map accuracy_of (trials (experiment_data (fst (snd (experiment_exit (PyStr ''0:30'') None (exp1 [trial_a, trial_b]) disk1)))))))"
proof -
  have h1: "json_serializable (e_start_time (experiment_data (exp1 [trial_a, trial_b])))"
    by (simp add: exp1_def)
  have h2: "json_serializable (PyStr ''0:30'')" by simp
  have h3: "list_all has_accuracy (trials (experiment_data (exp1 [trial_a, trial_b])))"
    by (simp add: exp1_def has_accuracy_def accuracy_key_def trial_a_def trial_b_def)
  have nm: "map name (trials (experiment_data (fst (snd (experiment_exit (PyStr ''0:30'') None (exp1 [trial_a, trial_b]) disk1)))))
        = [''trial_b'', ''trial_a'']"
    by (simp only: experiment_exit_sorted_trials[OF h1 h2 h3])
       (simp add: exp1_def accuracy_of_def accuracy_key_def trial_a_def trial_b_def)
  from clean_exit_sorts_trials[OF h1 h2 h3, of disk1] h1 h2 h3 nm show ?thesis by blast
qed

subsection \<open>The sort needs an accuracy in every trial\<close>

lemma sort_trials_KeyError:
  assumes "list_all (\<lambda>t. evaluation_metrics t \<noteq> None) ts" and "list_ex (\<lambda>t. \<not> has_accuracy t) ts"
  shows "sort_trials ts = Inl (KeyError ''accuracy'')"
proof -
  from assms(2) have "ts \<noteq> []" by auto
  then show ?thesis
    by (simp add: sort_trials_def sort_keys_KeyError[OF assms])
qed

lemma sort_keys_Inl:
  "\<not> list_all has_accuracy ts \<Longrightarrow> \<exists>err. sort_keys ts = Inl err"
  by (induction ts) (auto simp: has_accuracy_def split: sum.splits)

text \<open>
  Claim C10. For a clean close whose metadata can be written: when every retained
  trial has a metrics dictionary and one of them has no \<open>accuracy\<close> key, the sort
  raises \<open>KeyError\<close>, the close raises it too and the list stays as it was; with no
  retained trial (and no report option) the sort is skipped and the close returns
  normally; and a close that returns normally had an accuracy in every trial.
\<close>

theorem close_needs_accuracy:
  assumes "json_serializable (e_start_time (experiment_data e))" and "json_serializable dur"
  shows "(list_all (\<lambda>t. evaluation_metrics t \<noteq> None) (trials (experiment_data e))
            \<and> list_ex (\<lambda>t. \<not> has_accuracy t) (trials (experiment_data e))
          \<longrightarrow> sort_trials (trials (experiment_data e)) = Inl (KeyError ''accuracy'')
            \<and> fst (experiment_exit dur None e f) = Some (KeyError ''accuracy'')
            \<and> trials (experiment_data (fst (snd (experiment_exit dur None e f)))) = trials (experiment_data e))
       \<and> (trials (experiment_data e) = [] \<and> report_kwargs e = []
          \<longrightarrow> sort_trials (trials (experiment_data e)) = Inr []
            \<and> fst (experiment_exit dur None e f) = None)
       \<and> (fst (experiment_exit dur None e f) = None
          \<longrightarrow> list_all has_accuracy (trials (experiment_data e)))"
proof -
  have w: "write_experiment_data (experiment_data e\<lparr>e_duration := dur\<rparr>) f =
             (None, f(os_path_join (e_directory (experiment_data e)) ''experiment_info.json''
                      \<mapsto> Json (experiment_data_items (experiment_data e\<lparr>e_duration := dur\<rparr>))))"
    using write_experiment_data_ok[of "experiment_data e\<lparr>e_duration := dur\<rparr>" f] assms by simp
  have a: "sort_trials (trials (experiment_data e)) = Inl (KeyError ''accuracy'')
            \<and> fst (experiment_exit dur None e f) = Some (KeyError ''accuracy'')
            \<and> trials (experiment_data (fst (snd (experiment_exit dur None e f)))) = trials (experiment_data e)"
    if "list_all (\<lambda>t. evaluation_metrics t \<noteq> None) (trials (experiment_data e))"
      and "list_ex (\<lambda>t. \<not> has_accuracy t) (trials (experiment_data e))"
    using sort_trials_KeyError[OF that] w by (simp add: experiment_exit_def Let_def)
  have b: "sort_trials (trials (experiment_data e)) = Inr [] \<and> fst (experiment_exit dur None e f) = None"
    if "trials (experiment_data e) = []" and "report_kwargs e = []"
    using that w by (simp add: experiment_exit_def Let_def sort_trials_def create_experiment_report_def)
  have c: "list_all has_accuracy (trials (experiment_data e))"
    if "fst (experiment_exit dur None e f) = None"
  proof (rule ccontr)
    assume n: "\<not> list_all has_accuracy (trials (experiment_data e))"
    then have ne: "trials (experiment_data e) \<noteq> []" by auto
    from sort_keys_Inl[OF n] obtain err where "sort_keys (trials (experiment_data e)) = Inl err" ..
    with ne w have "fst (experiment_exit dur None e f) = Some err"
      by (simp add: experiment_exit_def Let_def sort_trials_def)
    with that show False by simp
  qed
  from a b c show ?thesis by blast
qed


theorem close_needs_accuracy_witness:
  "json_serializable (e_start_time (experiment_data (exp1 [trial_a, trial_without_accuracy])))
   \<and> json_serializable (PyStr ''0:30'')
   \<and> list_all (\<lambda>t. evaluation_metrics t \<noteq> None) (trials (experiment_data (exp1 [trial_a, trial_without_accuracy])))
   \<and> list_ex (\<lambda>t. \<not> has_accuracy t) (trials (experiment_data (exp1 [trial_a, trial_without_accuracy])))
   \<and> fst (experiment_exit (PyStr ''0:30'') None (exp1 [trial_a, trial_without_accuracy]) disk1)
        = Some (KeyError ''accuracy'')
   \<and> trials (experiment_data (exp1 [])) = [] \<and> report_kwargs (exp1 []) = []
   \<and> fst (experiment_exit (PyStr ''0:30'') None (exp1 []) disk1) = None"
proof -
  have s1: "json_serializable (e_start_time (experiment_data (exp1 ts)))" for ts
    by (simp add: exp1_def)
  have s2: "json_serializable (PyStr ''0:30'')" by simp
  have h1: "list_all (\<lambda>t. evaluation_metrics t \<noteq> None) (trials (experiment_data (exp1 [trial_a, trial_without_accuracy])))"
    by (simp add: exp1_def trial_a_def trial_without_accuracy_def)
  have h2: "list_ex (\<lambda>t. \<not> has_accuracy t) (trials (experiment_data (exp1 [trial_a, trial_without_accuracy])))"
    by (simp add: exp1_def trial_a_def trial_without_accuracy_def has_accuracy_def accuracy_key_def)
  have h3: "trials (experiment_data (exp1 [])) = [] \<and> report_kwargs (exp1 []) = []"
    by (simp add: exp1_def)
  from close_needs_accuracy[OF s1 s2, of "[trial_a, trial_without_accuracy]" disk1]
       close_needs_accuracy[OF s1 s2, of "[]" disk1] s1 s2 h1 h2 h3
  show ?thesis by blast
qed

section \<open>Constructing an experiment\<close>












section \<open>Closing a trial\<close>




section \<open>Writing a trial\<close>

lemma trial_items_serializable:
  "json_serializable (PyDict (trial_data_items td))
     = (json_serializable (start_time td) \<and> json_serializable (duration td)
        \<and> json_serializable (hyperparameters td))"
  by (auto simp: trial_data_items_def list_all_iff split: option.splits)

lemma trial_items_keys:
  "map fst (trial_data_items td) =
     [''name'', ''start_time'', ''duration'', ''directory'', ''hyperparameters'', ''figures'',
      ''evaluation_metrics'', ''training_history'']"
  by (simp add: trial_data_items_def)

lemma write_trial_data_ok:
  assumes "json_serializable (start_time (trial_data s))" and "json_serializable (duration (trial_data s))"
    and "json_serializable (hyperparameters (trial_data s))"
  shows "write_trial_data s =
           (None, s\<lparr> files := (files s)(os_path_join (directory (trial_data s)) ''trial_info.json''
                                  \<mapsto> Json (trial_data_items (trial_data s))) \<rparr>)"
  using assms trial_items_serializable[of "trial_data s"]
  by (simp add: write_trial_data_def json_dump_def Let_def del: json_serializable.simps)

text \<open>
  Claim C7. When the hyperparameters of a trial cannot be encoded as JSON (and its
  timestamps can), \<open>_write_trial_data\<close> returns normally, warns, and leaves in
  \<open>trial_info.json\<close> the trial's document with \<open>None\<close> for the hyperparameters and
  every other entry as it is in the trial's dictionary. The dictionary itself and the
  parent's list are not changed.
\<close>

theorem unserializable_hyperparameters_saved_as_None:
  assumes "\<not> json_serializable (hyperparameters (trial_data s))"
    and "json_serializable (start_time (trial_data s))"
    and "json_serializable (duration (trial_data s))"
  shows "fst (write_trial_data s) = None
       \<and> files (snd (write_trial_data s)) =
           (files s)(os_path_join (directory (trial_data s)) ''trial_info.json''
                       \<mapsto> Json (trial_data_items ((trial_data s)\<lparr> hyperparameters := PyNone \<rparr>)))
       \<and> map_of (trial_data_items ((trial_data s)\<lparr> hyperparameters := PyNone \<rparr>)) ''hyperparameters'' = Some PyNone
       \<and> (\<forall>k. k \<noteq> ''hyperparameters'' \<longrightarrow>
             map_of (trial_data_items ((trial_data s)\<lparr> hyperparameters := PyNone \<rparr>)) k
               = map_of (trial_data_items (trial_data s)) k)
       \<and> warnings (snd (write_trial_data s))
           = warnings s @ [Hyperparameters_not_serializable (name (trial_data s))]
       \<and> trial_data (snd (write_trial_data s)) = trial_data s
       \<and> experiment_trials (snd (write_trial_data s)) = experiment_trials s"
proof -
  let ?td = "trial_data s" and ?p = "os_path_join (directory (trial_data s)) ''trial_info.json''"
  have n1: "\<not> json_serializable (PyDict (trial_data_items ?td))"
    using assms(1) trial_items_serializable[of ?td] by simp
  have y2: "json_serializable (PyDict (trial_data_items (?td\<lparr> hyperparameters := PyNone \<rparr>)))"
    using assms(2,3) trial_items_serializable[of "?td\<lparr> hyperparameters := PyNone \<rparr>"] by simp
  have w: "write_trial_data s =
      (None, s\<lparr> files := (files s)(?p \<mapsto> Json (trial_data_items (?td\<lparr> hyperparameters := PyNone \<rparr>))),
                 warnings := warnings s @ [Hyperparameters_not_serializable (name ?td)],
                 logger := logger s @ [Log_warning ''Hyperparameters are not JSON serializable''] \<rparr>)"
    using n1 y2 by (simp add: write_trial_data_def json_dump_def Let_def del: json_serializable.simps)
  have k: "map_of (trial_data_items (?td\<lparr> hyperparameters := PyNone \<rparr>)) k = map_of (trial_data_items ?td) k"
    if "k \<noteq> ''hyperparameters''" for k
    using that by (simp add: trial_data_items_def)
  have h: "map_of (trial_data_items (?td\<lparr> hyperparameters := PyNone \<rparr>)) ''hyperparameters'' = Some PyNone"
    by (simp add: trial_data_items_def)
  show ?thesis unfolding w using k h by simp
qed

theorem unserializable_hyperparameters_saved_as_None_witness:
  "\<not> json_serializable (hyperparameters (trial_data (state_of trial_with_function False [] disk1)))
   \<and> json_serializable (start_time (trial_data (state_of trial_with_function False [] disk1)))
   \<and> json_serializable (duration (trial_data (state_of trial_with_function False [] disk1)))
   \<and> fst (write_trial_data (state_of trial_with_function False [] disk1)) = None
   \<and> files (snd (write_trial_data (state_of trial_with_function False [] disk1)))
        ''/base/exp1/trial_f/trial_info.json''
       = Some (Json [(''name'', PyStr ''trial_f''), (''start_time'', PyStr ''09:30''),
                     (''duration'', PyStr ''0:10''), (''directory'', PyStr ''/base/exp1/trial_f''),
                     (''hyperparameters'', PyNone),
                     (''figures'', PyDict [(''loss'', PyStr ''/base/exp1/trial_f/loss.png'')]),
                     (''evaluation_metrics'', PyDict [(''accuracy'', PyNum 0.8)]),
                     (''training_history'', PyDict [(''loss'', PyList [PyNum 0.5, PyNum 0.4])])])"
proof -
  have h1: "\<not> json_serializable (hyperparameters (trial_data (state_of trial_with_function False [] disk1)))"
    by (simp add: state_of_def trial_with_function_def)
  have h2: "json_serializable (start_time (trial_data (state_of trial_with_function False [] disk1)))"
    by (simp add: state_of_def trial_with_function_def)
  have h3: "json_serializable (duration (trial_data (state_of trial_with_function False [] disk1)))"
    by (simp add: state_of_def trial_with_function_def)
  from unserializable_hyperparameters_saved_as_None[OF h1 h2 h3] h1 h2 h3
  show ?thesis
    by (simp add: state_of_def trial_with_function_def trial_data_items_def os_path_join_def)
qed

text \<open>
  Claim C5, evaluated on the code. The document written for a trial has the eight
  keys of the trial's dictionary: \<open>training_history\<close> is among them and
  \<open>description\<close> is not. The claim says the opposite on both counts; the source
  copies the dictionary under the comment "Remove history" and removes nothing.
\<close>

theorem trial_info_json_keeps_training_history:
  "fst (write_trial_data (state_of trial_b False [] disk1)) = None
   \<and> files (snd (write_trial_data (state_of trial_b False [] disk1))) ''/base/exp1/trial_b/trial_info.json''
       = Some (Json [(''name'', PyStr ''trial_b''), (''start_time'', PyStr ''09:10''),
                     (''duration'', PyStr ''0:10''), (''directory'', PyStr ''/base/exp1/trial_b''),
                     (''hyperparameters'', PyDict [(''lr'', PyNum 0.001)]),
                     (''figures'', PyDict []),
                     (''evaluation_metrics'', PyDict [(''accuracy'', PyNum 0.95)]),
                     (''training_history'', PyDict [])])
   \<and> ''training_history'' \<in> set (map fst (trial_data_items trial_b))
   \<and> ''description'' \<notin> set (map fst (trial_data_items trial_b))"
proof -
  have "write_trial_data (state_of trial_b False [] disk1) =
          (None, (state_of trial_b False [] disk1)\<lparr> files := disk1(''/base/exp1/trial_b/trial_info.json''
                                  \<mapsto> Json (trial_data_items trial_b)) \<rparr>)"
    using write_trial_data_ok[of "state_of trial_b False [] disk1"]
    by (simp add: state_of_def trial_b_def os_path_join_def)
  then show ?thesis
    by (simp add: trial_items_keys) (simp add: trial_data_items_def trial_b_def)
qed

section \<open>Overwriting an earlier run\<close>



lemma pop_index_remove1: "x \<in> set xs \<Longrightarrow> pop (index_of x xs) xs = remove1 x xs"
  by (induction xs) (auto simp: pop_def)

lemma map_pop: "map g (pop i xs) = pop i (map g xs)"
  by (simp add: pop_def take_map drop_map)

lemma remove_trial_names:
  assumes "n \<in> set (map name ts)"
  shows "\<exists>ts'. remove_trial n ts = Inr ts' \<and> map name ts' = remove1 n (map name ts)"
  using assms pop_index_remove1[of n "map name ts"]
  by (simp add: remove_trial_def Let_def map_pop)

lemma overwrite_with_history:
  assumes "\<not> results_empty r" and "already_runned s"
    and "name (trial_data s) \<in> set (map name (experiment_trials s))"
    and "distinct (map name (experiment_trials s))"
    and "r_figures r = Some figs" and "r_evaluation_metrics r = Some m"
    and "r_training_history r = Some h"
    and "json_serializable (start_time (trial_data s))" and "json_serializable dur"
    and "json_serializable (hyperparameters (trial_data s))"
  shows "fst (trial_exit tff dur None r s) = None
       \<and> map name (experiment_trials (snd (trial_exit tff dur None r s)))
           = remove1 (name (trial_data s)) (map name (experiment_trials s)) @ [name (trial_data s)]
       \<and> distinct (map name (experiment_trials (snd (trial_exit tff dur None r s))))"
proof -
  from remove_trial_names[OF assms(3)] obtain ts' where
    rt: "remove_trial (name (trial_data s)) (experiment_trials s) = Inr ts'"
    and nm: "map name ts' = remove1 (name (trial_data s)) (map name (experiment_trials s))"
    by blast
  obtain paths f4 where t: "tff figs (directory (trial_data s)) (files s) = (paths, f4)"
    by (cases "tff figs (directory (trial_data s)) (files s)")
  have ex: "fst (trial_exit tff dur None r s) = None
          \<and> map name (experiment_trials (snd (trial_exit tff dur None r s))) = map name ts' @ [name (trial_data s)]"
    using assms(1,2,5-10) rt t
    by (simp add: trial_exit_def Let_def write_trial_data_ok)
  have "distinct (remove1 (name (trial_data s)) (map name (experiment_trials s)) @ [name (trial_data s)])"
    using assms(4) by simp
  with ex nm show ?thesis by simp
qed


section \<open>Resuming an experiment\<close>

text \<open>
  Claim C4, evaluated on the code. The directory holds the persisted record of
  \<open>trial_a\<close>. Constructing the experiment over it raises \<open>TypeError\<close> and leaves the
  disk as it was; the dictionary that the constructor would install has an empty trial
  list, and no statement of it reads a file. The experiment's \<open>trial\<close> method and the
  trial's constructor raise \<open>TypeError\<close> as well, and against that empty list
  \<open>_check_if_already_runned\<close> is false: nothing is loaded from disk, and no trial is
  constructed with \<open>already_runned\<close> set.
\<close>

theorem fresh_experiment_forgets_persisted_trials:
  "disk1 ''/base/exp1/trial_a/trial_info.json'' = Some (Json (trial_data_items trial_a))
   \<and> experiment_init (\<lambda>d. d) ''/base'' ''exp1'' ''resumed'' None disk1
       = (TypeError ''__init__() missing 1 required positional argument: label_type'', disk1)
   \<and> trials (initial_experiment_data ''exp1'' ''resumed'' ''/base/exp1'') = []
   \<and> experiment_trial (exp1 []) ''trial_a'' ''again'' PyNone disk1
       = (TypeError ''__init__() takes 4 positional arguments but 5 were given'', disk1)
   \<and> trial_init (exp1 []) ''trial_a'' PyNone disk1
       = (TypeError ''__init__() missing 1 required positional argument: label_type'', disk1)
   \<and> \<not> check_if_already_runned rerun_of_trial_a
         (trials (initial_experiment_data ''exp1'' ''resumed'' ''/base/exp1''))"
proof -
  have d: "disk1 ''/base/exp1/trial_a/trial_info.json'' = Some (Json (trial_data_items trial_a))"
    by (simp add: disk1_def)
  have e: "experiment_init (\<lambda>d. d) ''/base'' ''exp1'' ''resumed'' None disk1
       = (TypeError ''__init__() missing 1 required positional argument: label_type'', disk1)"
    by (simp add: experiment_init_def research_attributes_init_def)
  have t: "trial_init (exp1 []) ''trial_a'' PyNone disk1
       = (TypeError ''__init__() missing 1 required positional argument: label_type'', disk1)"
    by (simp add: trial_init_def research_attributes_init_def)
  have x: "experiment_trial (exp1 []) ''trial_a'' ''again'' PyNone disk1
       = (TypeError ''__init__() takes 4 positional arguments but 5 were given'', disk1)"
    by (simp add: experiment_trial_def)
  have l: "trials (initial_experiment_data ''exp1'' ''resumed'' ''/base/exp1'') = []"
    by (simp add: initial_experiment_data_def)
  have c: "\<not> check_if_already_runned rerun_of_trial_a
         (trials (initial_experiment_data ''exp1'' ''resumed'' ''/base/exp1''))"
    by (simp add: l check_if_already_runned_def)
  from d e t x l c show ?thesis by simp
qed

section \<open>The generated trial definitions\<close>

lemma upto_from: "i \<le> j \<Longrightarrow> [i..j] = i # [i + 1..j]"
  by (simp add: upto_rec1)

lemma iterate_from:
  fixes it :: "'s trials_definitions_iterator" and sn :: "'s \<Rightarrow> 'h \<times> 's"
  assumes "trial_count it \<le> num_trials it" and "nat (num_trials it - trial_count it) = k"
  shows "\<exists>items fin. iterate sn it = Some (items, StopIteration, fin)
           \<and> map fst items = map (\<lambda>j. prefix it @ str_int j) [trial_count it + 1..num_trials it]
           \<and> map snd items = suggestions sn (suggester it) k
           \<and> iterator_next sn fin = Inl StopIteration"
  using assms
proof (induction k arbitrary: it)
  case 0
  then have eq: "trial_count it = num_trials it" by simp
  then have "iterator_next sn it = Inl StopIteration" by (simp add: iterator_next_def)
  then have "iterate sn it = Some ([], StopIteration, it)"
    by (subst iterate.simps) simp
  with eq \<open>iterator_next sn it = Inl StopIteration\<close> show ?case by simp
next
  case (Suc k)
  then have lt: "trial_count it < num_trials it" by simp
  obtain h sg where sn: "sn (suggester it) = (h, sg)" by (cases "sn (suggester it)")
  let ?it' = "it\<lparr> trial_count := trial_count it + 1, suggester := sg \<rparr>"
  have nx: "iterator_next sn it = Inr ((prefix it @ str_int (trial_count it + 1), h), ?it')"
    using lt sn by (simp add: iterator_next_def Let_def)
  have "trial_count ?it' \<le> num_trials ?it'" "nat (num_trials ?it' - trial_count ?it') = k"
    using lt Suc.prems by simp_all
  from Suc.IH[OF this] obtain items fin where
    ih: "iterate sn ?it' = Some (items, StopIteration, fin)"
        "map fst items = map (\<lambda>j. prefix it @ str_int j) [trial_count it + 1 + 1..num_trials it]"
        "map snd items = suggestions sn sg k"
        "iterator_next sn fin = Inl StopIteration"
    by auto
  have "iterate sn it = Some ((prefix it @ str_int (trial_count it + 1), h) # items, StopIteration, fin)"
    by (subst iterate.simps) (simp add: nx ih(1))
  moreover have "[trial_count it + 1..num_trials it] = (trial_count it + 1) # [trial_count it + 1 + 1..num_trials it]"
    using lt by (intro upto_from) simp
  ultimately show ?case using ih sn by simp
qed

lemma iterator_never_stops_below_zero:
  assumes "num_trials it < 0" and "0 \<le> trial_count it"
  shows "\<exists>d it'. iterator_next sn it = Inr (d, it') \<and> num_trials it' < 0 \<and> 0 \<le> trial_count it'"
  using assms by (auto simp: iterator_next_def Let_def split: prod.splits)

text \<open>
  Claim C9. A generator configuration with a count \<open>n \<ge> 0\<close> and a configuration
  that the suggester accepts gives an iterator which, iterated to its end, yields
  exactly \<open>n\<close> descriptors, named by the prefix (\<open>trial_\<close> when none is given)
  followed by 1, 2, ..., \<open>n\<close> in decimal, with the hyperparameters the suggester
  returns in turn; the iteration ends because \<open>__next__\<close> raises \<open>StopIteration\<close>, and it
  raises it again on the exhausted iterator. The iteration does end: its result is
  \<open>Some\<close>. (Below zero the count is never reached, see
  \<open>iterator_never_stops_below_zero\<close>.)
\<close>

theorem generator_yields_num_trials:
  fixes sn :: "'s \<Rightarrow> 'h \<times> 's" and new_suggester :: "'c \<Rightarrow> error + 's"
  assumes "0 \<le> n" and "cfg_num_trials cfg = Some n"
    and "cfg_hparams_configs cfg = Some hc" and "new_suggester hc = Inr sg"
  shows "\<exists>it ws items fin.
           process_trials_definitions new_suggester cfg = Inr (it, ws)
         \<and> iterate sn it = Some (items, StopIteration, fin)
         \<and> length items = nat n
         \<and> map fst items = map (\<lambda>j. (case cfg_prefix cfg of None \<Rightarrow> ''trial_'' | Some p \<Rightarrow> p) @ str_int j) [1..n]
         \<and> map snd items = suggestions sn sg (nat n)
         \<and> iterator_next sn fin = Inl StopIteration"
proof -
  let ?pre = "case cfg_prefix cfg of None \<Rightarrow> ''trial_'' | Some p \<Rightarrow> p"
  let ?it = "\<lparr> suggester = sg, num_trials = n, prefix = ?pre, trial_count = 0 \<rparr>"
  have p: "process_trials_definitions new_suggester cfg = Inr (?it, map Ignoring_key (cfg_other_keys cfg))"
    using assms by (simp add: process_trials_definitions_def)
  have "trial_count ?it \<le> num_trials ?it" "nat (num_trials ?it - trial_count ?it) = nat n"
    using assms(1) by simp_all
  from iterate_from[OF this, of sn] obtain items fin where
    r: "iterate sn ?it = Some (items, StopIteration, fin)"
       "map fst items = map (\<lambda>j. ?pre @ str_int j) [1..n]"
       "map snd items = suggestions sn sg (nat n)"
       "iterator_next sn fin = Inl StopIteration"
    by auto
  have "length items = length (map fst items)" by simp
  also have "\<dots> = nat n" unfolding r(2) using assms(1) by simp
  finally have "length items = nat n" .
  with p r show ?thesis by blast
qed


theorem generator_yields_num_trials_witness:
  "(0::int) \<le> 3
   \<and> (\<exists>it ws items fin.
         process_trials_definitions (\<lambda>c::nat. Inr c)
           \<lparr> cfg_num_trials = Some 3, cfg_prefix = None, cfg_hparams_configs = Some 0,
             cfg_other_keys = [] \<rparr> = Inr (it, ws)
       \<and> iterate (\<lambda>s::nat. (s, s + 1)) it = Some (items, StopIteration, fin)
       \<and> length items = 3
       \<and> map fst items = [''trial_1'', ''trial_2'', ''trial_3'']
       \<and> iterator_next (\<lambda>s::nat. (s, s + 1)) fin = Inl StopIteration)"
proof -
  let ?cfg = "\<lparr> cfg_num_trials = Some 3, cfg_prefix = None, cfg_hparams_configs = Some (0::nat),
                 cfg_other_keys = [] \<rparr>"
  have h1: "(0::int) \<le> 3" by simp
  have h2: "cfg_num_trials ?cfg = Some 3" by simp
  have h3: "cfg_hparams_configs ?cfg = Some 0" by simp
  have nm: "map (\<lambda>j. ''trial_'' @ str_int j) [1..3] = [''trial_1'', ''trial_2'', ''trial_3'']"
    by code_simp
  from generator_yields_num_trials[where new_suggester = "\<lambda>c::nat. Inr c" and hc = 0 and sg = 0
         and sn = "\<lambda>s::nat. (s, s + 1)", OF h1 h2 h3]
  obtain it ws items fin where
    r: "process_trials_definitions (\<lambda>c::nat. Inr c) ?cfg = Inr (it, ws)"
       "iterate (\<lambda>s::nat. (s, s + 1)) it = Some (items, StopIteration, fin)"
       "length items = nat 3"
       "map fst items = map (\<lambda>j. ''trial_'' @ str_int j) [1..3]"
       "iterator_next (\<lambda>s::nat. (s, s + 1)) fin = Inl StopIteration"
    by auto
  have "length items = 3" using r(3) by simp
  with r nm h1 show ?thesis by (intro conjI exI[of _ it] exI[of _ ws] exI[of _ items] exI[of _ fin]) simp_all
qed

end
